theory Spec2Isabelle
  imports Complex_Main "HOL-Library.Word" "HOL-Library.Sublist"
begin

section \<open>Values of the source language\<close>

text \<open>
  The program is \<^verbatim>\<open>src/rental-statement.ts\<close>. Its strings are JavaScript strings:
  sequences of UTF-16 code units, which is what \<^verbatim>\<open>length\<close>, \<^verbatim>\<open>slice\<close>,
  \<^verbatim>\<open>padEnd\<close> and \<^verbatim>\<open>padStart\<close> count. A string is therefore a list of 16-bit
  words; \<open>str\<close> embeds an ASCII literal.
\<close>

type_synonym jsstring = "16 word list"

definition str :: "string \<Rightarrow> jsstring" where
  "str s = map of_char s"

text \<open>
  A \<^verbatim>\<open>number\<close> that arrives as a rental's \<^verbatim>\<open>days\<close> is any IEEE double: a finite
  value (a rational), \<^verbatim>\<open>NaN\<close> or an infinity. Amounts are computed by the program
  itself from validated day counts: they are multiples of one half, which doubles
  represent exactly below \<open>2\<^sup>5\<^sup>2\<close>, so amounts are modelled as exact rationals.
  Day counts so large that the double arithmetic would round, and amounts from
  \<open>10\<^sup>2\<^sup>1\<close> on (where \<^verbatim>\<open>toFixed\<close> switches to exponent notation), are outside the
  range the model describes. Frequent renter points are sums of \<open>1\<close> and \<open>2\<close>:
  integers.
\<close>

datatype number = Num rat | NaN | Infinity | NegInfinity

definition isInteger :: "rat \<Rightarrow> bool" where
  \<comment> \<open>\<^verbatim>\<open>Number.isInteger\<close> on a finite value\<close>
  "isInteger q = (of_int \<lfloor>q\<rfloor> = q)"

text \<open>
  The two \<^verbatim>\<open>throw new Error(...)\<close> sites of the source, told apart by their message:
  \<^verbatim>\<open>Rental days must be a positive integer (received: ${days})\<close> is \<open>InvalidInput days\<close>,
  \<^verbatim>\<open>Movie not found for ID: ${rental.movieID}\<close> is \<open>MovieNotFound movieID\<close>.
\<close>

datatype error = InvalidInput number | MovieNotFound jsstring

section \<open>Constants and configurations\<close>

record NewTier =
  rate :: rat
  thresholdDays :: rat
  bonusPoints :: int

record Tier =
  base :: rat
  thresholdDays :: rat
  extraRate :: rat

record PricingTiers =
  regular :: Tier
  children :: Tier
  new :: NewTier

definition POINTS_PER_RENTAL :: int where
  "POINTS_PER_RENTAL = 1"

definition PRICING_TIERS :: PricingTiers where
  "PRICING_TIERS =
     \<lparr>regular = \<lparr>base = 2, thresholdDays = 2, extraRate = 3 / 2\<rparr>,
      children = \<lparr>base = 3 / 2, thresholdDays = 3, extraRate = 3 / 2\<rparr>,
      new = \<lparr>rate = 3, thresholdDays = 2, bonusPoints = 1\<rparr>\<rparr>"

section \<open>Type definitions\<close>

text \<open>
  \<^verbatim>\<open>Movie.code\<close> has the static type \<^verbatim>\<open>MovieCode\<close>, but the source looks it up
  at run time and handles a miss, so the model keeps it a string. A
  \<^verbatim>\<open>Record<string, Movie>\<close> and the dispatch table are finite maps over the own
  properties of the object; keys that an object literal inherits from
  \<^verbatim>\<open>Object.prototype\<close> (such as \<^verbatim>\<open>constructor\<close>) are not part of the model.
\<close>

record RentalSummary =
  title :: jsstring
  amount :: rat

record Movie =
  title :: jsstring
  code :: jsstring

type_synonym Movies = "jsstring \<rightharpoonup> Movie"

record Rental =
  movieID :: jsstring
  days :: number

record Customer =
  name :: jsstring
  rentals :: "Rental list"

record RentalCharge =
  amount :: rat
  points :: int

section \<open>Pricing logic\<close>

definition calculateRegularCharge :: "rat \<Rightarrow> RentalCharge" where
  "calculateRegularCharge d =
     (let t = regular PRICING_TIERS;
          a = (if d > thresholdDays t then base t + (d - thresholdDays t) * extraRate t
               else base t)
      in \<lparr>amount = a, points = POINTS_PER_RENTAL\<rparr>)"

definition calculateChildrenCharge :: "rat \<Rightarrow> RentalCharge" where
  "calculateChildrenCharge d =
     (let t = children PRICING_TIERS;
          a = (if d > thresholdDays t then base t + (d - thresholdDays t) * extraRate t
               else base t)
      in \<lparr>amount = a, points = POINTS_PER_RENTAL\<rparr>)"

definition calculateNewReleaseCharge :: "rat \<Rightarrow> RentalCharge" where
  "calculateNewReleaseCharge d =
     (let t = new PRICING_TIERS;
          a = d * rate t;
          p = (if d > NewTier.thresholdDays t then POINTS_PER_RENTAL + bonusPoints t
               else POINTS_PER_RENTAL)
      in \<lparr>amount = a, points = p\<rparr>)"

definition chargeCalculators :: "jsstring \<rightharpoonup> (rat \<Rightarrow> RentalCharge)" where
  "chargeCalculators =
     [str ''regular'' \<mapsto> calculateRegularCharge,
      str ''children'' \<mapsto> calculateChildrenCharge,
      str ''new'' \<mapsto> calculateNewReleaseCharge]"

text \<open>
  \<^verbatim>\<open>console.log\<close> is the only effect of the pricing step: the function returns, next
  to its result, the lines it has written. \<^verbatim>\<open>Number.isInteger\<close> is false on
  \<^verbatim>\<open>NaN\<close> and on the infinities, so these take the throwing branch as well.
\<close>

definition unknownCodeNotice :: "jsstring \<Rightarrow> jsstring" where
  "unknownCodeNotice c = str ''Unknown movie code: \"'' @ c @ str ''\"''"

fun calculateRentalCharge :: "Movie \<Rightarrow> number \<Rightarrow> (error + RentalCharge) \<times> jsstring list" where
  "calculateRentalCharge movie (Num d) =
     (if \<not> isInteger d \<or> d < 1 then (Inl (InvalidInput (Num d)), [])
      else (case chargeCalculators (code movie) of
              None \<Rightarrow>
                (Inr \<lparr>amount = 0, points = POINTS_PER_RENTAL\<rparr>,
                 [unknownCodeNotice (code movie)])
            | Some calculator \<Rightarrow> (Inr (calculator d), [])))"
| "calculateRentalCharge movie other = (Inl (InvalidInput other), [])"

section \<open>Statement formatting\<close>

subsection \<open>String methods\<close>

definition isWhiteSpace :: "16 word \<Rightarrow> bool" where
  \<comment> \<open>the code units \<^verbatim>\<open>trim\<close> strips: WhiteSpace and LineTerminator of ECMAScript\<close>
  "isWhiteSpace c =
     (c \<in> {0x0009, 0x000A, 0x000B, 0x000C, 0x000D, 0x0020, 0x00A0, 0x1680,
            0x2028, 0x2029, 0x202F, 0x205F, 0x3000, 0xFEFF}
      \<or> (0x2000 \<le> c \<and> c \<le> 0x200A))"

definition trim :: "jsstring \<Rightarrow> jsstring" where
  "trim s = rev (dropWhile isWhiteSpace (rev (dropWhile isWhiteSpace s)))"

definition repeat :: "jsstring \<Rightarrow> nat \<Rightarrow> jsstring" where
  "repeat s n = concat (replicate n s)"

definition padEnd :: "jsstring \<Rightarrow> nat \<Rightarrow> jsstring" where
  "padEnd s n = s @ replicate (n - length s) 0x20"

definition padStart :: "jsstring \<Rightarrow> nat \<Rightarrow> jsstring" where
  "padStart s n = replicate (n - length s) 0x20 @ s"

fun join :: "jsstring list \<Rightarrow> jsstring \<Rightarrow> jsstring" where
  "join [] sep = []"
| "join [x] sep = x"
| "join (x # y # ys) sep = x @ sep @ join (y # ys) sep"

subsection \<open>Numbers as text\<close>

fun digits :: "nat \<Rightarrow> jsstring" where
  "digits n = (if n < 10 then [of_nat (48 + n)]
               else digits (n div 10) @ [of_nat (48 + n mod 10)])"

declare digits.simps [simp del]

definition intToString :: "int \<Rightarrow> jsstring" where
  \<comment> \<open>the template literal \<^verbatim>\<open>${n}\<close> for an integer below \<open>10\<^sup>2\<^sup>1\<close>\<close>
  "intToString k = (if k < 0 then str ''-'' @ digits (nat (- k)) else digits (nat k))"

definition toFixed :: "rat \<Rightarrow> nat \<Rightarrow> jsstring" where
  \<comment> \<open>\<^verbatim>\<open>Number.prototype.toFixed\<close>: the nearest \<open>n / 10\<^sup>f\<close>, the larger \<open>n\<close> on a tie\<close>
  "toFixed x f =
     (let s = (if x < 0 then str ''-'' else []);
          y = (if x < 0 then - x else x);
          n = nat \<lfloor>y * 10 ^ f + 1 / 2\<rfloor>;
          m = digits n;
          m = (if f \<noteq> 0
               then (let m = (if length m \<le> f then replicate (f + 1 - length m) 0x30 @ m
                              else m);
                         k = length m
                     in take (k - f) m @ str ''.'' @ drop (k - f) m)
               else m)
      in s @ m)"

subsection \<open>Lines and the statement\<close>

definition LABEL_WIDTH :: nat where
  "LABEL_WIDTH = 30"

definition AMOUNT_WIDTH :: nat where
  "AMOUNT_WIDTH = 8"

definition formatStatementLine :: "jsstring \<Rightarrow> rat \<Rightarrow> jsstring" where
  "formatStatementLine label a =
     (if trim label = [] then repeat (str ''-'') (LABEL_WIDTH + AMOUNT_WIDTH)
      else (let displayLabel =
                  (if length label > LABEL_WIDTH
                   then take (LABEL_WIDTH - 3) label @ str ''...''
                   else label)
            in padEnd displayLabel LABEL_WIDTH @ padStart (toFixed a 2) AMOUNT_WIDTH))"

text \<open>
  The three local variables of \<^verbatim>\<open>statement\<close> that the \<^verbatim>\<open>for\<close> loop updates, and
  the loop itself: it stops at the first rental that throws, and returns the lines
  the pricing step has logged so far.
\<close>

record LoopState =
  totalAmount :: rat
  frequentRenterPoints :: int
  rentalSummaries :: "RentalSummary list"

fun rentalLoop :: "Movies \<Rightarrow> Rental list \<Rightarrow> LoopState \<Rightarrow> (error + LoopState) \<times> jsstring list" where
  "rentalLoop movies [] s = (Inr s, [])"
| "rentalLoop movies (rental # rest) s =
     (case movies (movieID rental) of
        None \<Rightarrow> (Inl (MovieNotFound (movieID rental)), [])
      | Some movie \<Rightarrow>
          (case calculateRentalCharge movie (days rental) of
             (Inl e, out) \<Rightarrow> (Inl e, out)
           | (Inr charge, out) \<Rightarrow>
               (case rentalLoop movies rest
                       \<lparr>totalAmount = totalAmount s + amount charge,
                        frequentRenterPoints = frequentRenterPoints s + points charge,
                        rentalSummaries = rentalSummaries s @
                          [\<lparr>RentalSummary.title = title movie, amount = amount charge\<rparr>]\<rparr> of
                  (r, out') \<Rightarrow> (r, out @ out'))))"

definition initialState :: LoopState where
  \<comment> \<open>the values of the three local variables when the loop starts\<close>
  "initialState = \<lparr>totalAmount = 0, frequentRenterPoints = 0, rentalSummaries = []\<rparr>"

text \<open>
  The elements of the array \<^verbatim>\<open>outputLines\<close>, and the statement joined from them.
  The empty string of \<^verbatim>\<open>formatStatementLine("", 0)\<close> is the empty list.
\<close>

definition rentalLines :: "LoopState \<Rightarrow> jsstring list" where
  "rentalLines s =
     map (\<lambda>r. formatStatementLine (RentalSummary.title r) (RentalSummary.amount r))
       (rentalSummaries s)"

definition totalLine :: "LoopState \<Rightarrow> jsstring" where
  "totalLine s = formatStatementLine (str ''Amount owed is'') (totalAmount s)"

definition pointsLine :: "LoopState \<Rightarrow> jsstring" where
  "pointsLine s =
     str ''Earned '' @ intToString (frequentRenterPoints s) @ str '' frequent renter points''"

definition outputLines :: "jsstring \<Rightarrow> LoopState \<Rightarrow> jsstring list" where
  "outputLines customerName s =
     [str ''Rental Record for '' @ customerName, formatStatementLine [] 0]
     @ rentalLines s
     @ [formatStatementLine [] 0, totalLine s, pointsLine s]"

definition statement :: "Customer \<Rightarrow> Movies \<Rightarrow> (error + jsstring) \<times> jsstring list" where
  "statement customer movies =
     (case rentalLoop movies (rentals customer) initialState of
        (Inl e, out) \<Rightarrow> (Inl e, out)
      | (Inr s, out) \<Rightarrow> (Inr (join (outputLines (name customer) s) [0x0A] @ [0x0A]), out))"

text \<open>
  A rental that does not throw is priced: its movie is in the catalog and the pricing
  step returns a charge for it.
\<close>

definition priced :: "Movies \<Rightarrow> Rental \<Rightarrow> Movie \<times> RentalCharge \<Rightarrow> bool" where
  "priced movies r mc =
     (movies (movieID r) = Some (fst mc)
      \<and> fst (calculateRentalCharge (fst mc) (days r)) = Inr (snd mc))"

section \<open>Reading a statement line\<close>







section \<open>Inputs used as examples\<close>

text \<open>
  The scenario of the specification, with its abbreviated titles. The category the
  specification calls new-release is the code \<^verbatim>\<open>new\<close> of the source.
  \<open>martinStatement\<close> is the statement of the scenario, line by line.
\<close>

definition scenarioCatalog :: Movies where
  "scenarioCatalog =
     [str ''F001'' \<mapsto> \<lparr>title = str ''Ran'', code = str ''regular''\<rparr>,
      str ''F002'' \<mapsto> \<lparr>title = str ''Bleu'', code = str ''regular''\<rparr>,
      str ''F003'' \<mapsto> \<lparr>title = str ''Sommar'', code = str ''children''\<rparr>,
      str ''F004'' \<mapsto> \<lparr>title = str ''Yara'', code = str ''new''\<rparr>]"

definition martin :: Customer where
  "martin =
     \<lparr>name = str ''martin'',
      rentals = [\<lparr>movieID = str ''F001'', days = Num 3\<rparr>,
                 \<lparr>movieID = str ''F002'', days = Num 1\<rparr>,
                 \<lparr>movieID = str ''F003'', days = Num 1\<rparr>,
                 \<lparr>movieID = str ''F004'', days = Num 1\<rparr>]\<rparr>"

definition martinStatement :: jsstring where
  "martinStatement = str
     (''Rental Record for martin'' @ [CHR 0x0A] @
      ''--------------------------------------'' @ [CHR 0x0A] @
      ''Ran                               3.50'' @ [CHR 0x0A] @
      ''Bleu                              2.00'' @ [CHR 0x0A] @
      ''Sommar                            1.50'' @ [CHR 0x0A] @
      ''Yara                              3.00'' @ [CHR 0x0A] @
      ''--------------------------------------'' @ [CHR 0x0A] @
      ''Amount owed is                   10.00'' @ [CHR 0x0A] @
      ''Earned 4 frequent renter points'' @ [CHR 0x0A])"



definition blankTitleCatalog :: Movies where
  "blankTitleCatalog = [str ''F001'' \<mapsto> \<lparr>title = str '' '', code = str ''new''\<rparr>]"

definition blankTitleCustomer :: Customer where
  "blankTitleCustomer =
     \<lparr>name = str ''martin'', rentals = [\<lparr>movieID = str ''F001'', days = Num 3\<rparr>]\<rparr>"


definition blankTitleStatement :: jsstring where
  "blankTitleStatement = str
     (''Rental Record for martin'' @ [CHR 0x0A] @
      ''--------------------------------------'' @ [CHR 0x0A] @
      ''--------------------------------------'' @ [CHR 0x0A] @
      ''--------------------------------------'' @ [CHR 0x0A] @
      ''Amount owed is                    9.00'' @ [CHR 0x0A] @
      ''Earned 2 frequent renter points'' @ [CHR 0x0A])"

section \<open>The pricing step\<close>

lemma isInteger_of_nat: "isInteger (of_nat n)"
  by (simp add: isInteger_def)

text \<open>The check of \<^verbatim>\<open>calculateRentalCharge\<close> passes exactly on the positive integers.\<close>

lemma validDays_iff: "(isInteger d \<and> 1 \<le> d) \<longleftrightarrow> (\<exists>n::nat. 0 < n \<and> d = of_nat n)"
proof
  assume a: "isInteger d \<and> 1 \<le> d"
  then have e: "of_int \<lfloor>d\<rfloor> = d"
    unfolding isInteger_def by blast
  from a have f: "1 \<le> \<lfloor>d\<rfloor>"
    by simp
  then have "rat_of_nat (nat \<lfloor>d\<rfloor>) = of_int \<lfloor>d\<rfloor>"
    by simp
  with e have "d = of_nat (nat \<lfloor>d\<rfloor>)"
    by (simp only:)
  moreover from f have "0 < nat \<lfloor>d\<rfloor>"
    by simp
  ultimately show "\<exists>n::nat. 0 < n \<and> d = of_nat n"
    by blast
next
  assume "\<exists>n::nat. 0 < n \<and> d = of_nat n"
  then show "isInteger d \<and> 1 \<le> d"
    by (auto simp: isInteger_of_nat)
qed

lemma calculateRentalCharge_valid:
  "0 < n \<Longrightarrow> calculateRentalCharge movie (Num (of_nat n)) =
     (case chargeCalculators (code movie) of
        None \<Rightarrow>
          (Inr \<lparr>amount = 0, points = POINTS_PER_RENTAL\<rparr>, [unknownCodeNotice (code movie)])
      | Some calculator \<Rightarrow> (Inr (calculator (of_nat n)), []))"
  by (simp add: isInteger_of_nat)

lemma calculateRentalCharge_invalid:
  assumes "\<And>n::nat. 0 < n \<Longrightarrow> d \<noteq> Num (of_nat n)"
  shows "calculateRentalCharge movie d = (Inl (InvalidInput d), [])"
proof (cases d)
  case (Num q)
  with assms have "\<not> (\<exists>n::nat. 0 < n \<and> q = of_nat n)"
    by auto
  then have "\<not> (isInteger q \<and> 1 \<le> q)"
    by (simp only: validDays_iff not_False_eq_True)
  with Num show ?thesis
    by auto
qed simp_all




lemma chargeCalculators_None:
  "chargeCalculators c = None \<longleftrightarrow> c \<notin> {str ''regular'', str ''children'', str ''new''}"
  by (simp add: chargeCalculators_def)





text \<open>A fraction is not a day count the check lets through.\<close>

lemma half_not_nat: "Num (5 / 2) \<noteq> Num (rat_of_nat n)"
proof
  assume "Num (5 / 2) = Num (rat_of_nat n)"
  then have "rat_of_nat (2 * n) = rat_of_nat 5"
    by simp
  then have "2 * n = 5"
    by (simp only: of_nat_eq_iff)
  then show False
    by presburger
qed

text \<open>
  Claim C4. Whatever the movie's category, known or not, a number of days that is
  not a positive integer (zero, negative, fractional, \<^verbatim>\<open>NaN\<close> or infinite) makes the
  pricing step throw its invalid-input error, and nothing is logged. Zero and
  \<open>-1\<close> are instances, shown in the witness.
\<close>

theorem invalid_days_rejected:
  assumes "\<And>n::nat. 0 < n \<Longrightarrow> d \<noteq> Num (of_nat n)"
  shows "calculateRentalCharge movie d = (Inl (InvalidInput d), [])"
  using assms by (rule calculateRentalCharge_invalid)

theorem invalid_days_rejected_witness:
  "calculateRentalCharge \<lparr>title = str ''Ran'', code = str ''regular''\<rparr> (Num 0) =
     (Inl (InvalidInput (Num 0)), [])
   \<and> calculateRentalCharge \<lparr>title = str ''Ran'', code = str ''horror''\<rparr> (Num (- 1)) =
     (Inl (InvalidInput (Num (- 1))), [])
   \<and> calculateRentalCharge \<lparr>title = str ''Yara'', code = str ''new''\<rparr> (Num (5 / 2)) =
     (Inl (InvalidInput (Num (5 / 2))), [])
   \<and> calculateRentalCharge \<lparr>title = str ''Yara'', code = str ''new''\<rparr> NaN =
     (Inl (InvalidInput NaN), [])"
proof (intro conjI)
  show "calculateRentalCharge \<lparr>title = str ''Ran'', code = str ''regular''\<rparr> (Num 0) =
     (Inl (InvalidInput (Num 0)), [])"
    by (rule invalid_days_rejected) simp
  show "calculateRentalCharge \<lparr>title = str ''Ran'', code = str ''horror''\<rparr> (Num (- 1)) =
     (Inl (InvalidInput (Num (- 1))), [])"
    by (rule invalid_days_rejected) simp
  show "calculateRentalCharge \<lparr>title = str ''Yara'', code = str ''new''\<rparr> (Num (5 / 2)) =
     (Inl (InvalidInput (Num (5 / 2))), [])"
    by (rule invalid_days_rejected) (rule half_not_nat)
  show "calculateRentalCharge \<lparr>title = str ''Yara'', code = str ''new''\<rparr> NaN =
     (Inl (InvalidInput NaN), [])"
    by (rule invalid_days_rejected) simp
qed



text \<open>
  Claim C9. The days are checked before the code is looked up: on a movie whose code
  has no entry in the dispatch table, the pricing step returns the zero-charge
  fallback exactly when the days are a positive integer, and throws the
  invalid-input error, without logging, on every other number.
\<close>

theorem validation_before_fallback:
  assumes "code movie \<notin> {str ''regular'', str ''children'', str ''new''}"
  shows "calculateRentalCharge movie d =
           (if \<exists>n::nat. 0 < n \<and> d = Num (of_nat n)
            then (Inr \<lparr>amount = 0, points = 1\<rparr>,
                  [str ''Unknown movie code: \"'' @ code movie @ str ''\"''])
            else (Inl (InvalidInput d), []))"
proof (cases "\<exists>n::nat. 0 < n \<and> d = Num (of_nat n)")
  case True
  then obtain n :: nat where n: "0 < n" "d = Num (of_nat n)"
    by blast
  from assms have "chargeCalculators (code movie) = None"
    by (simp add: chargeCalculators_None)
  with n have "calculateRentalCharge movie d =
      (Inr \<lparr>amount = 0, points = 1\<rparr>,
       [str ''Unknown movie code: \"'' @ code movie @ str ''\"''])"
    by (simp add: calculateRentalCharge_valid unknownCodeNotice_def POINTS_PER_RENTAL_def
        del: calculateRentalCharge.simps)
  with True show ?thesis
    by (simp only: if_True)
next
  case False
  then have "calculateRentalCharge movie d = (Inl (InvalidInput d), [])"
    by (intro calculateRentalCharge_invalid) blast
  with False show ?thesis
    by (simp only: if_False)
qed

theorem validation_before_fallback_witness:
  "calculateRentalCharge \<lparr>title = str ''Ran'', code = str ''horror''\<rparr> (Num 0) =
     (Inl (InvalidInput (Num 0)), [])
   \<and> calculateRentalCharge \<lparr>title = str ''Ran'', code = str ''horror''\<rparr> (Num 2) =
     (Inr \<lparr>amount = 0, points = 1\<rparr>, [str ''Unknown movie code: \"horror\"''])"
proof -
  have c: "code \<lparr>title = str ''Ran'', code = str ''horror''\<rparr>
             \<notin> {str ''regular'', str ''children'', str ''new''}"
    by (simp add: str_def)
  have z: "(\<exists>n::nat. 0 < n \<and> Num 0 = Num (of_nat n)) = False"
    by simp
  have "0 < (2::nat) \<and> Num 2 = Num (of_nat 2)"
    by simp
  then have "\<exists>n::nat. 0 < n \<and> Num 2 = Num (of_nat n)"
    by (rule exI)
  then have t: "(\<exists>n::nat. 0 < n \<and> Num 2 = Num (of_nat n)) = True"
    by (simp only:)
  have n: "str ''Unknown movie code: \"'' @ str ''horror'' @ str ''\"'' =
      str ''Unknown movie code: \"horror\"''"
    by (simp add: str_def)
  from validation_before_fallback [OF c, of "Num 0"]
  have "calculateRentalCharge \<lparr>title = str ''Ran'', code = str ''horror''\<rparr> (Num 0) =
     (Inl (InvalidInput (Num 0)), [])"
    by (simp only: z if_False)
  moreover from validation_before_fallback [OF c, of "Num 2"]
  have "calculateRentalCharge \<lparr>title = str ''Ran'', code = str ''horror''\<rparr> (Num 2) =
     (Inr \<lparr>amount = 0, points = 1\<rparr>, [str ''Unknown movie code: \"horror\"''])"
    by (simp only: t if_True Movie.simps n)
  ultimately show ?thesis
    by (rule conjI)
qed

section \<open>Formatting a line\<close>

lemma repeat_single: "repeat [c] n = replicate n c"
  by (induction n) (simp_all add: repeat_def)

lemma trim_Nil: "trim [] = []"
  by (simp add: trim_def)

lemma formatStatementLine_blank:
  "trim label = [] \<Longrightarrow> formatStatementLine label a = replicate 38 0x2D"
  by (simp add: formatStatementLine_def str_def repeat_single LABEL_WIDTH_def AMOUNT_WIDTH_def)

lemma formatStatementLine_nonblank:
  "trim label \<noteq> [] \<Longrightarrow> formatStatementLine label a =
     (if length label > 30 then take 27 label @ str ''...''
      else label @ replicate (30 - length label) 0x20)
     @ padStart (toFixed a 2) 8"
  by (simp add: formatStatementLine_def padEnd_def str_def LABEL_WIDTH_def AMOUNT_WIDTH_def)

text \<open>
  Claim C8. A label that is not blank and longer than 30 code units is cut to its first
  27 and followed by three dots; one of at most 30 is kept whole and filled up with
  spaces on its right (left-justified); either way the label column is exactly 30
  wide and the amount column follows it. A blank label gives 38 dashes.
\<close>

theorem label_column:
  "formatStatementLine label a =
     (if trim label = [] then replicate 38 0x2D
      else (if length label > 30 then take 27 label @ str ''...''
            else label @ replicate (30 - length label) 0x20)
           @ padStart (toFixed a 2) 8)
   \<and> length (if length label > 30 then take 27 label @ str ''...''
              else label @ replicate (30 - length label) 0x20) = 30"
  by (simp add: formatStatementLine_blank formatStatementLine_nonblank str_def)

theorem label_column_witness:
  "formatStatementLine (str ''Il buono, il brutto, il cattivo (1966)!!'') (7 / 2) =
     str ''Il buono, il brutto, il cat...    3.50''
   \<and> formatStatementLine (str ''Ran'') (7 / 2) =
     str ''Ran                               3.50''
   \<and> formatStatementLine (str ''  '') (7 / 2) =
     str ''--------------------------------------''"
proof (intro conjI)
  show "formatStatementLine (str ''Il buono, il brutto, il cattivo (1966)!!'') (7 / 2) =
     str ''Il buono, il brutto, il cat...    3.50''"
    by (subst label_column [THEN conjunct1]) code_simp
  show "formatStatementLine (str ''Ran'') (7 / 2) = str ''Ran                               3.50''"
    by (subst label_column [THEN conjunct1]) code_simp
  show "formatStatementLine (str ''  '') (7 / 2) = str ''--------------------------------------''"
    by (subst label_column [THEN conjunct1]) code_simp
qed

section \<open>The loop over the rentals\<close>

text \<open>
  When the loop ends normally, every rental has been priced, in order, and the three
  variables hold the sums and the summaries of all of them.
\<close>

lemma rentalLoop_Inr:
  "rentalLoop movies rs s = (Inr s', out) \<Longrightarrow>
     \<exists>mcs. list_all2 (priced movies) rs mcs
       \<and> totalAmount s' = totalAmount s + sum_list (map (amount \<circ> snd) mcs)
       \<and> frequentRenterPoints s' = frequentRenterPoints s + sum_list (map (points \<circ> snd) mcs)
       \<and> rentalSummaries s' = rentalSummaries s
            @ map (\<lambda>mc. \<lparr>RentalSummary.title = title (fst mc), amount = amount (snd mc)\<rparr>) mcs"
proof (induction rs arbitrary: s s' out)
  case Nil
  then show ?case
    by simp
next
  case (Cons r rs)
  from Cons.prems obtain movie where m: "movies (movieID r) = Some movie"
    by (cases "movies (movieID r)") simp_all
  from Cons.prems m obtain charge out1
    where c: "calculateRentalCharge movie (days r) = (Inr charge, out1)"
    by (cases "calculateRentalCharge movie (days r)"; cases "fst (calculateRentalCharge movie (days r))")
      simp_all
  define s1 where "s1 =
     \<lparr>totalAmount = totalAmount s + amount charge,
      frequentRenterPoints = frequentRenterPoints s + points charge,
      rentalSummaries = rentalSummaries s @
        [\<lparr>RentalSummary.title = title movie, amount = amount charge\<rparr>]\<rparr>"
  from Cons.prems m c obtain out2 where "rentalLoop movies rs s1 = (Inr s', out2)"
    by (cases "rentalLoop movies rs s1") (simp add: s1_def)
  from Cons.IH [OF this] obtain mcs where mcs: "list_all2 (priced movies) rs mcs"
    "totalAmount s' = totalAmount s1 + sum_list (map (amount \<circ> snd) mcs)"
    "frequentRenterPoints s' = frequentRenterPoints s1 + sum_list (map (points \<circ> snd) mcs)"
    "rentalSummaries s' = rentalSummaries s1
       @ map (\<lambda>mc. \<lparr>RentalSummary.title = title (fst mc), amount = amount (snd mc)\<rparr>) mcs"
    by blast
  from m c have "priced movies r (movie, charge)"
    by (simp add: priced_def)
  with mcs have "list_all2 (priced movies) (r # rs) ((movie, charge) # mcs)"
    by simp
  moreover from mcs have "totalAmount s' =
      totalAmount s + sum_list (map (amount \<circ> snd) ((movie, charge) # mcs))"
    by (simp add: s1_def)
  moreover from mcs have "frequentRenterPoints s' =
      frequentRenterPoints s + sum_list (map (points \<circ> snd) ((movie, charge) # mcs))"
    by (simp add: s1_def)
  moreover from mcs have "rentalSummaries s' = rentalSummaries s
      @ map (\<lambda>mc. \<lparr>RentalSummary.title = title (fst mc), amount = amount (snd mc)\<rparr>)
          ((movie, charge) # mcs)"
    by (simp add: s1_def)
  ultimately show ?case
    by blast
qed

lemma statement_Inr:
  assumes "statement customer movies = (Inr text, out)"
  shows "\<exists>s. rentalLoop movies (rentals customer) initialState = (Inr s, out)
           \<and> text = join (outputLines (name customer) s) [0x0A] @ [0x0A]"
proof (cases "rentalLoop movies (rentals customer) initialState")
  case (Pair r out')
  with assms show ?thesis
    by (cases r) (simp_all add: statement_def)
qed






section \<open>The statement\<close>

lemma martin_loop:
  "rentalLoop scenarioCatalog (rentals martin) initialState =
     (Inr \<lparr>totalAmount = 10, frequentRenterPoints = 4,
           rentalSummaries =
             [\<lparr>RentalSummary.title = str ''Ran'', amount = 7 / 2\<rparr>,
              \<lparr>RentalSummary.title = str ''Bleu'', amount = 2\<rparr>,
              \<lparr>RentalSummary.title = str ''Sommar'', amount = 3 / 2\<rparr>,
              \<lparr>RentalSummary.title = str ''Yara'', amount = 3\<rparr>]\<rparr>, [])"
  by code_simp

lemma martin_text: "statement martin scenarioCatalog = (Inr martinStatement, [])"
  by code_simp

lemma blank_text: "statement blankTitleCustomer blankTitleCatalog = (Inr blankTitleStatement, [])"
  by code_simp

text \<open>
  Claim C1 as stated fails on the code. The regular movie rented for three days is
  past the threshold of two days and costs 3.50, not 2.00, so the total is 10.00 and
  not 8.50; and the total line pads its label to 30 columns, so the text
  \<^verbatim>\<open>Amount owed is    8.50\<close> does not occur in the statement.
\<close>

theorem martin_statement_counterexample:
  "fst (rentalLoop scenarioCatalog (rentals martin) initialState) =
     Inr \<lparr>totalAmount = 10, frequentRenterPoints = 4,
          rentalSummaries =
            [\<lparr>RentalSummary.title = str ''Ran'', amount = 7 / 2\<rparr>,
             \<lparr>RentalSummary.title = str ''Bleu'', amount = 2\<rparr>,
             \<lparr>RentalSummary.title = str ''Sommar'', amount = 3 / 2\<rparr>,
             \<lparr>RentalSummary.title = str ''Yara'', amount = 3\<rparr>]\<rparr>
   \<and> fst (statement martin scenarioCatalog) = Inr martinStatement
   \<and> \<not> sublist (str ''Amount owed is    8.50'') martinStatement"
proof (intro conjI)
  show "\<not> sublist (str ''Amount owed is    8.50'') martinStatement"
    by code_simp
qed (simp_all add: martin_loop martin_text)

text \<open>
  Claim C1, amended. In the scenario the per-rental amounts are 3.50, 2.00, 1.50 and
  3.00, the total is 10.00 and the points are 4; the statement is the text
  \<open>martinStatement\<close>, which contains the header naming martin, the total line (the
  label, padded to 30 columns, then 10.00 right-aligned in 8) and the line of the
  4 points.
\<close>

theorem martin_statement:
  "rentalLoop scenarioCatalog (rentals martin) initialState =
     (Inr \<lparr>totalAmount = 10, frequentRenterPoints = 4,
           rentalSummaries =
             [\<lparr>RentalSummary.title = str ''Ran'', amount = 7 / 2\<rparr>,
              \<lparr>RentalSummary.title = str ''Bleu'', amount = 2\<rparr>,
              \<lparr>RentalSummary.title = str ''Sommar'', amount = 3 / 2\<rparr>,
              \<lparr>RentalSummary.title = str ''Yara'', amount = 3\<rparr>]\<rparr>, [])
   \<and> statement martin scenarioCatalog = (Inr martinStatement, [])
   \<and> sublist (str ''Rental Record for martin'') martinStatement
   \<and> sublist (str ''Amount owed is                   10.00'') martinStatement
   \<and> sublist (str ''Earned 4 frequent renter points'') martinStatement"
proof (intro conjI)
  show "sublist (str ''Rental Record for martin'') martinStatement"
    by code_simp
  show "sublist (str ''Amount owed is                   10.00'') martinStatement"
    by code_simp
  show "sublist (str ''Earned 4 frequent renter points'') martinStatement"
    by code_simp
qed (rule martin_loop martin_text)+




text \<open>
  Claim C10. In a statement that is produced, every rental is one line, in order:
  the 38 dashes of a separator when the movie's title is blank (whatever the
  amount), the formatted title and amount otherwise; and the total line and the
  points line carry the sums over all rentals, those with a blank title included.
\<close>

theorem blank_title_line:
  assumes "statement customer movies = (Inr text, out)"
  shows "\<exists>mcs. list_all2 (priced movies) (rentals customer) mcs
     \<and> text =
         join ([str ''Rental Record for '' @ name customer, replicate 38 0x2D]
               @ map (\<lambda>mc. if trim (title (fst mc)) = [] then replicate 38 0x2D
                            else formatStatementLine (title (fst mc)) (amount (snd mc))) mcs
               @ [replicate 38 0x2D,
                  formatStatementLine (str ''Amount owed is'')
                    (sum_list (map (amount \<circ> snd) mcs)),
                  str ''Earned '' @ intToString (sum_list (map (points \<circ> snd) mcs))
                    @ str '' frequent renter points''])
           [0x0A] @ [0x0A]"
proof -
  from statement_Inr [OF assms] obtain s
    where s: "rentalLoop movies (rentals customer) initialState = (Inr s, out)"
      and t: "text = join (outputLines (name customer) s) [0x0A] @ [0x0A]"
    by blast
  from rentalLoop_Inr [OF s] obtain mcs where mcs: "list_all2 (priced movies) (rentals customer) mcs"
    "totalAmount s = sum_list (map (amount \<circ> snd) mcs)"
    "frequentRenterPoints s = sum_list (map (points \<circ> snd) mcs)"
    "rentalSummaries s =
       map (\<lambda>mc. \<lparr>RentalSummary.title = title (fst mc), amount = amount (snd mc)\<rparr>) mcs"
    by (auto simp: initialState_def)
  have "rentalLines s =
      map (\<lambda>mc. if trim (title (fst mc)) = [] then replicate 38 0x2D
                 else formatStatementLine (title (fst mc)) (amount (snd mc))) mcs"
    by (simp add: rentalLines_def mcs(4) formatStatementLine_blank comp_def)
  with t mcs(2,3) have "text =
         join ([str ''Rental Record for '' @ name customer, replicate 38 0x2D]
               @ map (\<lambda>mc. if trim (title (fst mc)) = [] then replicate 38 0x2D
                            else formatStatementLine (title (fst mc)) (amount (snd mc))) mcs
               @ [replicate 38 0x2D,
                  formatStatementLine (str ''Amount owed is'')
                    (sum_list (map (amount \<circ> snd) mcs)),
                  str ''Earned '' @ intToString (sum_list (map (points \<circ> snd) mcs))
                    @ str '' frequent renter points''])
           [0x0A] @ [0x0A]"
    by (simp add: outputLines_def totalLine_def pointsLine_def formatStatementLine_blank trim_Nil)
  with mcs(1) show ?thesis
    by blast
qed

theorem blank_title_line_witness:
  "statement blankTitleCustomer blankTitleCatalog = (Inr blankTitleStatement, [])
   \<and> (\<exists>mcs. list_all2 (priced blankTitleCatalog) (rentals blankTitleCustomer) mcs
     \<and> blankTitleStatement =
         join ([str ''Rental Record for '' @ name blankTitleCustomer, replicate 38 0x2D]
               @ map (\<lambda>mc. if trim (title (fst mc)) = [] then replicate 38 0x2D
                            else formatStatementLine (title (fst mc)) (amount (snd mc))) mcs
               @ [replicate 38 0x2D,
                  formatStatementLine (str ''Amount owed is'')
                    (sum_list (map (amount \<circ> snd) mcs)),
                  str ''Earned '' @ intToString (sum_list (map (points \<circ> snd) mcs))
                    @ str '' frequent renter points''])
           [0x0A] @ [0x0A])"
  using blank_text blank_title_line [OF blank_text]
  by (rule conjI)

section \<open>The amounts a statement displays\<close>


































end
